theory Spec2Isabelle
  imports Complex_Main
begin

section \<open>Python values\<close>

text \<open>
  The tools of \<^verbatim>\<open>verl/tools/deepproof_tool.py\<close> handle dynamically typed data: the
  \<^verbatim>\<open>parameters\<close> and keyword dictionaries of a tool call, the JSON document the
  verification service answers with, and the literal catalog of \<^verbatim>\<open>ListTool\<close>.
  All of them are values of the JSON-shaped fragment of Python below.

  A \<^verbatim>\<open>float\<close> is the rational number it denotes, or one of the three special values
  that \<^verbatim>\<open>json.loads\<close> also accepts. A \<^verbatim>\<open>dict\<close> with string keys is an association
  list in insertion order, read with \<open>map_of\<close>. A \<^verbatim>\<open>str\<close> is a list of characters
  with code points below 256.
\<close>

datatype pyfloat = Finite rat | PosInf | NegInf | NaN

datatype pyval =
    PNone
  | PBool bool
  | PInt int
  | PFloat pyfloat
  | PStr string
  | PList "pyval list"
  | PDict "(string \<times> pyval) list"

type_synonym pydict = "(string \<times> pyval) list"

text \<open>\<^verbatim>\<open>type(v).__name__\<close>, as it appears in the interpreter's error messages.\<close>

fun py_type_name :: "pyval \<Rightarrow> string" where
  "py_type_name PNone = ''NoneType''"
| "py_type_name (PBool b) = ''bool''"
| "py_type_name (PInt i) = ''int''"
| "py_type_name (PFloat f) = ''float''"
| "py_type_name (PStr s) = ''str''"
| "py_type_name (PList xs) = ''list''"
| "py_type_name (PDict d) = ''dict''"

definition sq :: "string \<Rightarrow> string" where
  \<comment> \<open>the text between two single quotes\<close>
  "sq s = CHR 0x27 # s @ [CHR 0x27]"

definition dq :: "string \<Rightarrow> string" where
  \<comment> \<open>the text between two double quotes\<close>
  "dq s = CHR 0x22 # s @ [CHR 0x22]"

subsection \<open>Exceptions\<close>

text \<open>
  An exception object is identified by the qualified name of its class and by the text
  \<^verbatim>\<open>str(e)\<close>; these are the two things \<^verbatim>\<open>execute\<close> reads from it. Values of this type
  stand for instances of subclasses of \<^verbatim>\<open>Exception\<close>, the ones an
  \<^verbatim>\<open>except Exception\<close> clause handles. Cancellation of the running task and interpreter
  exit belong to the scheduler and are outside this sequential model.

  A function that may raise returns \<open>pyexc + 'a\<close>, with \<open>Inl\<close> the raised exception.
\<close>

datatype pyexc = PyExc (exc_class: string) (exc_str: string)

definition KeyError :: "string \<Rightarrow> pyexc" where
  \<comment> \<open>\<^verbatim>\<open>str(KeyError(k))\<close> is \<^verbatim>\<open>repr(k)\<close>; the keys looked up are quote-free literals\<close>
  "KeyError k = PyExc ''KeyError'' (sq k)"

definition TypeError :: "string \<Rightarrow> pyexc" where
  "TypeError msg = PyExc ''TypeError'' msg"

definition AttributeError :: "string \<Rightarrow> pyexc" where
  "AttributeError msg = PyExc ''AttributeError'' msg"

definition bind_exc :: "pyexc + 'a \<Rightarrow> ('a \<Rightarrow> pyexc + 'b) \<Rightarrow> pyexc + 'b" where
  \<comment> \<open>sequencing: the first exception raised ends the block\<close>
  "bind_exc x f = (case x of Inl e \<Rightarrow> Inl e | Inr v \<Rightarrow> f v)"

subsection \<open>The operations on values that the tools use\<close>

definition dict_getitem :: "pydict \<Rightarrow> string \<Rightarrow> pyexc + pyval" where
  \<comment> \<open>\<^verbatim>\<open>d[k]\<close> on a \<^verbatim>\<open>dict\<close>\<close>
  "dict_getitem d k = (case map_of d k of None \<Rightarrow> Inl (KeyError k) | Some v \<Rightarrow> Inr v)"

fun py_getitem :: "pyval \<Rightarrow> string \<Rightarrow> pyexc + pyval" where
  \<comment> \<open>\<^verbatim>\<open>v[k]\<close> with a string \<^verbatim>\<open>k\<close> on any value (messages as CPython 3.11 words them)\<close>
  "py_getitem (PDict d) k = dict_getitem d k"
| "py_getitem (PList xs) k = Inl (TypeError ''list indices must be integers or slices, not str'')"
| "py_getitem (PStr s) k = Inl (TypeError (''string indices must be integers, not '' @ sq ''str''))"
| "py_getitem v k = Inl (TypeError (sq (py_type_name v) @ '' object is not subscriptable''))"

fun py_get :: "pyval \<Rightarrow> string \<Rightarrow> pyval \<Rightarrow> pyexc + pyval" where
  \<comment> \<open>\<^verbatim>\<open>v.get(k, default)\<close>: only a \<^verbatim>\<open>dict\<close> has the method\<close>
  "py_get (PDict d) k dflt = Inr (case map_of d k of None \<Rightarrow> dflt | Some v \<Rightarrow> v)"
| "py_get v k dflt =
     Inl (AttributeError (sq (py_type_name v) @ '' object has no attribute '' @ sq ''get''))"

fun py_eq_num :: "pyval \<Rightarrow> rat \<Rightarrow> bool" where
  \<comment> \<open>\<^verbatim>\<open>v == c\<close> for a numeric literal \<^verbatim>\<open>c\<close>: \<^verbatim>\<open>bool\<close>, \<^verbatim>\<open>int\<close> and \<^verbatim>\<open>float\<close> compare by value,
      every other value is unequal to a number\<close>
  "py_eq_num (PBool b) c = ((if b then 1 else 0) = c)"
| "py_eq_num (PInt i) c = (of_int i = c)"
| "py_eq_num (PFloat (Finite r)) c = (r = c)"
| "py_eq_num v c = False"

definition py_str_bool :: "bool \<Rightarrow> string" where
  \<comment> \<open>\<^verbatim>\<open>str(b)\<close>\<close>
  "py_str_bool b = (if b then ''True'' else ''False'')"

fun py_str_add :: "string \<Rightarrow> pyval \<Rightarrow> pyexc + string" where
  \<comment> \<open>\<^verbatim>\<open>s + v\<close> for a \<^verbatim>\<open>str\<close> \<^verbatim>\<open>s\<close>\<close>
  "py_str_add s (PStr t) = Inr (s @ t)"
| "py_str_add s v =
     Inl (TypeError (''can only concatenate str (not '' @ dq (py_type_name v) @ '') to str''))"

definition environ_get :: "(string \<rightharpoonup> string) \<Rightarrow> string \<Rightarrow> string \<Rightarrow> string" where
  \<comment> \<open>\<^verbatim>\<open>os.environ.get(k, default)\<close>\<close>
  "environ_get env k dflt = (case env k of None \<Rightarrow> dflt | Some v \<Rightarrow> v)"

section \<open>The HTTP round trip\<close>

text \<open>
  The request that \<^verbatim>\<open>session.post(url, json=payload, timeout=ClientTimeout(total=15))\<close>
  sends, and what comes back. The remote side is a parameter of \<^verbatim>\<open>execute\<close>: a function
  from the request to a reply. A reply is either an exception raised while the request is in
  flight (connection refused, DNS failure, the 15 second timeout), or a response with its
  status, the text aiohttp gives \<^verbatim>\<open>str\<close> of the \<^verbatim>\<open>ClientResponseError\<close> it builds from
  that response, and the outcome of \<^verbatim>\<open>await response.json()\<close> (the parsed document, or the
  exception raised for a body that is not JSON).
\<close>

record http_request =
  req_method :: string
  req_url :: string
  req_json :: pyval
  req_timeout_total :: nat

record http_response =
  status :: nat
  status_error_str :: string
  json :: "pyexc + pyval"

datatype http_reply = NoResponse pyexc | Response http_response

definition session_post :: "(http_request \<Rightarrow> http_reply) \<Rightarrow> http_request \<Rightarrow> pyexc + http_response" where
  "session_post net req = (case net req of NoResponse e \<Rightarrow> Inl e | Response r \<Rightarrow> Inr r)"

definition raise_for_status :: "http_response \<Rightarrow> pyexc + unit" where
  \<comment> \<open>aiohttp: \<^verbatim>\<open>ClientResponse.ok\<close> is \<^verbatim>\<open>400 > self.status\<close>, and \<^verbatim>\<open>raise_for_status\<close>
      raises \<^verbatim>\<open>ClientResponseError\<close> when the response is not \<^verbatim>\<open>ok\<close>\<close>
  "raise_for_status r =
     (if 400 > status r then Inr ()
      else Inl (PyExc ''aiohttp.client_exceptions.ClientResponseError'' (status_error_str r)))"

section \<open>FStarExecutionTool\<close>

text \<open>
  The attributes that \<^verbatim>\<open>__init__\<close> sets in both classes. The schema class
  \<^verbatim>\<open>OpenAIFunctionToolSchema\<close> is declared elsewhere, and the tools only store and
  return it, so it is a type parameter. \<^verbatim>\<open>FStarExecutionTool\<close> has no other attribute.
\<close>

record 's tool =
  config :: pydict
  tool_schema :: 's
  instance_dict :: "string \<rightharpoonup> pyval"

type_synonym 's fstar_tool = "'s tool"

type_synonym tool_result = "string \<times> int \<times> pydict"

text \<open>
  Modelled from the spec: \<^verbatim>\<open>BaseTool.__init__\<close> (\<^verbatim>\<open>verl/tools/base_tool.py\<close>), called
  through \<^verbatim>\<open>super().__init__(config, tool_schema)\<close>, keeps the configuration and the
  schema "constructed at tool initialization" that \<^verbatim>\<open>get_schema\<close> returns.
\<close>

definition FStarExecutionTool_init :: "pydict \<Rightarrow> 's \<Rightarrow> 's fstar_tool" where
  "FStarExecutionTool_init cfg sch = \<lparr>config = cfg, tool_schema = sch, instance_dict = Map.empty\<rparr>"

definition FStarExecutionTool_get_openai_tool_schema :: "'s fstar_tool \<Rightarrow> 's" where
  "FStarExecutionTool_get_openai_tool_schema self = tool_schema self"

text \<open>
  \<^verbatim>\<open>uuid4()\<close> draws from the operating system's random source: the source is the sequence
  of tokens it will hand out, and a draw takes the first and leaves the rest.
\<close>

type_synonym rng = "nat \<Rightarrow> string"

definition uuid4 :: "rng \<Rightarrow> string \<times> rng" where
  "uuid4 g = (g 0, \<lambda>n. g (Suc n))"

text \<open>
  Every method returns its outcome (\<open>Inl\<close>: the exception that leaves the call,
  \<open>Inr\<close>: the value returned) together with the object after the call, and with the random
  source after the call where it draws from it. \<^verbatim>\<open>create\<close> returns a \<^verbatim>\<open>str\<close> or
  \<^verbatim>\<open>None\<close>, which is \<open>string option\<close>.
\<close>

definition FStarExecutionTool_create ::
  "'s fstar_tool \<Rightarrow> rng \<Rightarrow> string option \<Rightarrow> string option \<Rightarrow> pydict
     \<Rightarrow> (pyexc + string option) \<times> 's fstar_tool \<times> rng" where
  "FStarExecutionTool_create self g instance_id ground_truth kwargs =
     (case instance_id of
        None \<Rightarrow> (let (u, g') = uuid4 g in (Inr (Some u), self, g'))
      | Some i \<Rightarrow> (Inr (Some i), self, g))"

definition verification_request :: "(string \<rightharpoonup> string) \<Rightarrow> pyval \<Rightarrow> pyval \<Rightarrow> http_request" where
  \<comment> \<open>lines 107, 112 to 115 and 119: the URL, the payload and the arguments of \<^verbatim>\<open>session.post\<close>\<close>
  "verification_request env code problem_id =
     (let url = environ_get env ''FSTAR_VERIFIER_SERVER_HOST'' ''http://localhost:8005''
                  @ ''/check_problem_solution'';
          payload = PDict [(''solution'', code), (''problem_id'', problem_id)]
      in \<lparr>req_method = ''POST'', req_url = url, req_json = payload, req_timeout_total = 15\<rparr>)"

definition verdict_block :: "http_response \<Rightarrow> pyexc + tool_result" where
  \<comment> \<open>lines 120 to 123: the body of the inner \<^verbatim>\<open>async with\<close>; \<^verbatim>\<open>and\<close> evaluates its
      right operand only when the left one is true\<close>
  "verdict_block response =
     bind_exc (raise_for_status response) (\<lambda>_.
     bind_exc (json response) (\<lambda>resp_json.
     bind_exc (py_get resp_json ''return_code'' (PInt (- 2))) (\<lambda>rc.
     bind_exc (if py_eq_num rc 0
               then bind_exc (py_get resp_json ''score'' PNone) (\<lambda>sc. Inr (py_eq_num sc 1))
               else Inr False) (\<lambda>ok.
     let result_msg = ''Verification Success: '' @ py_str_bool ok @ [CHR 0x0A] in
     bind_exc (py_get resp_json ''messages'' (PStr [])) (\<lambda>m.
     bind_exc (py_str_add result_msg m) (\<lambda>msg.
     Inr (msg, 0, [])))))))"

definition try_block :: "(http_request \<Rightarrow> http_reply) \<Rightarrow> http_request \<Rightarrow> pyexc + tool_result" where
  \<comment> \<open>lines 118 to 123: what the \<^verbatim>\<open>try\<close> statement guards\<close>
  "try_block net req = bind_exc (session_post net req) verdict_block"

definition runtime_error :: "pyexc \<Rightarrow> tool_result" where
  \<comment> \<open>line 126: the handler; \<^verbatim>\<open>{e.__class__}\<close> prints as \<^verbatim>\<open><class 'name'>\<close>\<close>
  "runtime_error e =
     (''Runtime error occurred.'' @ [CHR 0x0A] @ ''<class '' @ sq (exc_class e) @ ''>'' @ '': '' @ exc_str e,
      0, [])"

definition FStarExecutionTool_execute ::
  "(string \<rightharpoonup> string) \<Rightarrow> (http_request \<Rightarrow> http_reply) \<Rightarrow> 's fstar_tool \<Rightarrow> string \<Rightarrow> pydict \<Rightarrow> pydict
     \<Rightarrow> (pyexc + tool_result) \<times> 's fstar_tool \<times> http_request list" where
  \<comment> \<open>the outcome, the object after the call, and the requests sent, in order; the two
      lookups of lines 110 and 114 come before the \<^verbatim>\<open>try\<close>\<close>
  "FStarExecutionTool_execute env net self instance_id parameters kwargs =
     (case dict_getitem parameters ''code'' of
        Inl e \<Rightarrow> (Inl e, self, [])
      | Inr code \<Rightarrow>
          (case bind_exc (dict_getitem kwargs ''tools_kwargs'') (\<lambda>tk. py_getitem tk ''example_name'') of
             Inl e \<Rightarrow> (Inl e, self, [])
           | Inr problem_id \<Rightarrow>
               (let req = verification_request env code problem_id
                in (case try_block net req of
                      Inl e \<Rightarrow> Inr (runtime_error e)
                    | Inr res \<Rightarrow> Inr res,
                    self, [req]))))"

definition FStarExecutionTool_release ::
  "'s fstar_tool \<Rightarrow> string \<Rightarrow> pydict \<Rightarrow> (pyexc + unit) \<times> 's fstar_tool" where
  "FStarExecutionTool_release self instance_id kwargs = (Inr (), self)"

section \<open>ListTool\<close>

subsection \<open>\<^verbatim>\<open>json.dumps\<close> with an indent\<close>

text \<open>
  The standard library's encoder, as \<^verbatim>\<open>json.dumps(obj, indent=2)\<close> runs it: strings are
  escaped to ASCII, items are separated by a comma, a key and its value by a colon and a
  space, and every item of a non-empty list or dict starts on a new line, indented by its
  nesting level. An empty list or dict is \<^verbatim>\<open>[]\<close> or \<^verbatim>\<open>{}\<close>. The text of a \<^verbatim>\<open>float\<close>
  is the interpreter's \<^verbatim>\<open>float.__repr__\<close>, which the encoder takes as a parameter
  (\<^verbatim>\<open>_floatstr\<close>), and so does the model.
\<close>

definition hexdigit :: "nat \<Rightarrow> char" where
  "hexdigit n = ''0123456789abcdef'' ! (n mod 16)"

definition escape_char :: "char \<Rightarrow> string" where
  \<comment> \<open>\<^verbatim>\<open>py_encode_basestring_ascii\<close>: everything outside space to tilde is escaped\<close>
  "escape_char c =
     (if c = CHR 0x22 then [CHR 0x5C, CHR 0x22]
      else if c = CHR 0x5C then [CHR 0x5C, CHR 0x5C]
      else if c = CHR 0x0A then [CHR 0x5C, CHR ''n'']
      else if c = CHR 0x0D then [CHR 0x5C, CHR ''r'']
      else if c = CHR 0x09 then [CHR 0x5C, CHR ''t'']
      else if c = CHR 0x08 then [CHR 0x5C, CHR ''b'']
      else if c = CHR 0x0C then [CHR 0x5C, CHR ''f'']
      else if 0x20 \<le> (of_char c :: nat) \<and> (of_char c :: nat) \<le> 0x7E then [c]
      else [CHR 0x5C, CHR ''u'', CHR ''0'', CHR ''0'',
            hexdigit (of_char c div 16), hexdigit (of_char c)])"

definition encode_basestring_ascii :: "string \<Rightarrow> string" where
  "encode_basestring_ascii s = dq (concat (map escape_char s))"

fun nat_repr :: "nat \<Rightarrow> string" where
  "nat_repr n = (if n < 10 then [hexdigit n] else nat_repr (n div 10) @ [hexdigit (n mod 10)])"

declare nat_repr.simps [simp del]

definition int_repr :: "int \<Rightarrow> string" where
  "int_repr i = (if i < 0 then CHR ''-'' # nat_repr (nat (- i)) else nat_repr (nat i))"

definition newline_indent :: "nat \<Rightarrow> nat \<Rightarrow> string" where
  "newline_indent indent level = CHR 0x0A # replicate (indent * level) CHR '' ''"

fun join :: "string \<Rightarrow> string list \<Rightarrow> string" where
  "join sep [] = []"
| "join sep [x] = x"
| "join sep (x # y # ys) = x @ sep @ join sep (y # ys)"

fun json_dumps :: "(pyfloat \<Rightarrow> string) \<Rightarrow> nat \<Rightarrow> nat \<Rightarrow> pyval \<Rightarrow> string"
  and json_dumps_list :: "(pyfloat \<Rightarrow> string) \<Rightarrow> nat \<Rightarrow> nat \<Rightarrow> pyval list \<Rightarrow> string list"
  and json_dumps_items :: "(pyfloat \<Rightarrow> string) \<Rightarrow> nat \<Rightarrow> nat \<Rightarrow> pydict \<Rightarrow> string list"
where
  "json_dumps floatstr indent level PNone = ''null''"
| "json_dumps floatstr indent level (PBool b) = (if b then ''true'' else ''false'')"
| "json_dumps floatstr indent level (PInt i) = int_repr i"
| "json_dumps floatstr indent level (PFloat f) = floatstr f"
| "json_dumps floatstr indent level (PStr s) = encode_basestring_ascii s"
| "json_dumps floatstr indent level (PList xs) =
     (if xs = [] then ''[]''
      else ''['' @ newline_indent indent (level + 1)
           @ join ('','' @ newline_indent indent (level + 1))
               (json_dumps_list floatstr indent (level + 1) xs)
           @ newline_indent indent level @ '']'')"
| "json_dumps floatstr indent level (PDict d) =
     (if d = [] then ''{}''
      else ''{'' @ newline_indent indent (level + 1)
           @ join ('','' @ newline_indent indent (level + 1))
               (json_dumps_items floatstr indent (level + 1) d)
           @ newline_indent indent level @ ''}'')"
| "json_dumps_list floatstr indent level [] = []"
| "json_dumps_list floatstr indent level (x # xs) =
     json_dumps floatstr indent level x # json_dumps_list floatstr indent level xs"
| "json_dumps_items floatstr indent level [] = []"
| "json_dumps_items floatstr indent level ((k, v) # d) =
     (encode_basestring_ascii k @ '': '' @ json_dumps floatstr indent level v)
       # json_dumps_items floatstr indent level d"

subsection \<open>The class\<close>

record 's list_tool = "'s tool" +
  tool_list :: pyval

definition tool_catalog :: pyval where
  \<comment> \<open>lines 47 to 59: the literal assigned to \<^verbatim>\<open>self.tool_list\<close>\<close>
  "tool_catalog =
     PList [
       PDict [
         (''name'', PStr ''tools/execute_fstar''),
         (''description'', PStr ''A tool that executes the given fstar code.''),
         (''parameters'', PDict [
           (''code'', PDict [
             (''type'', PStr ''string''),
             (''description'', PStr ''F* code to execute'')
           ])
         ]),
         (''required'', PList [PStr ''code''])
       ]
     ]"

definition ListTool_init :: "pydict \<Rightarrow> 's \<Rightarrow> 's list_tool" where
  "ListTool_init cfg sch =
     \<lparr>config = cfg, tool_schema = sch, instance_dict = Map.empty, tool_list = tool_catalog\<rparr>"

definition ListTool_get_openai_tool_schema :: "'s list_tool \<Rightarrow> 's" where
  "ListTool_get_openai_tool_schema self = tool_schema self"

definition ListTool_create ::
  "'s list_tool \<Rightarrow> rng \<Rightarrow> string option \<Rightarrow> string option \<Rightarrow> pydict
     \<Rightarrow> (pyexc + string option) \<times> 's list_tool \<times> rng" where
  \<comment> \<open>lines 66 to 68: the body ends without a \<^verbatim>\<open>return\<close>, so the call returns \<^verbatim>\<open>None\<close>\<close>
  "ListTool_create self g instance_id ground_truth kwargs =
     (case instance_id of
        None \<Rightarrow> (let (u, g') = uuid4 g in (Inr None, self, g'))
      | Some i \<Rightarrow> (Inr None, self, g))"

definition ListTool_execute ::
  "(pyfloat \<Rightarrow> string) \<Rightarrow> 's list_tool \<Rightarrow> string \<Rightarrow> pydict \<Rightarrow> pydict
     \<Rightarrow> (pyexc + tool_result) \<times> 's list_tool" where
  "ListTool_execute floatstr self instance_id parameters kwargs =
     (Inr (json_dumps floatstr 2 0 (tool_list self), 0, []), self)"

definition ListTool_release ::
  "'s list_tool \<Rightarrow> string \<Rightarrow> pydict \<Rightarrow> (pyexc + unit) \<times> 's list_tool" where
  "ListTool_release self instance_id kwargs = (Inr (), self)"

section \<open>Sequences of calls\<close>

text \<open>
  The hosting runtime calls the three lifecycle methods in any order and with any
  arguments. A call to \<^verbatim>\<open>execute\<close> carries the part of the outside world it consults
  (\<open>'w\<close>): for \<^verbatim>\<open>FStarExecutionTool\<close> the process environment and the remote side at
  the time of the call. A call that raises leaves the object as it is, and the runtime
  goes on with the next call.
\<close>

datatype 'w call =
    Create "string option" "string option" pydict
  | Execute 'w string pydict pydict
  | Release string pydict

fun FStarExecutionTool_call ::
  "'s fstar_tool \<times> rng \<Rightarrow> ((string \<rightharpoonup> string) \<times> (http_request \<Rightarrow> http_reply)) call
     \<Rightarrow> 's fstar_tool \<times> rng" where
  "FStarExecutionTool_call (self, g) (Create instance_id ground_truth kwargs) =
     (let (r, self', g') = FStarExecutionTool_create self g instance_id ground_truth kwargs
      in (self', g'))"
| "FStarExecutionTool_call (self, g) (Execute (env, net) instance_id parameters kwargs) =
     (let (r, self', sent) = FStarExecutionTool_execute env net self instance_id parameters kwargs
      in (self', g))"
| "FStarExecutionTool_call (self, g) (Release instance_id kwargs) =
     (let (r, self') = FStarExecutionTool_release self instance_id kwargs in (self', g))"

definition FStarExecutionTool_calls ::
  "'s fstar_tool \<times> rng \<Rightarrow> ((string \<rightharpoonup> string) \<times> (http_request \<Rightarrow> http_reply)) call list
     \<Rightarrow> 's fstar_tool \<times> rng" where
  "FStarExecutionTool_calls = foldl FStarExecutionTool_call"

fun ListTool_call ::
  "(pyfloat \<Rightarrow> string) \<Rightarrow> 's list_tool \<times> rng \<Rightarrow> unit call \<Rightarrow> 's list_tool \<times> rng" where
  "ListTool_call floatstr (self, g) (Create instance_id ground_truth kwargs) =
     (let (r, self', g') = ListTool_create self g instance_id ground_truth kwargs
      in (self', g'))"
| "ListTool_call floatstr (self, g) (Execute w instance_id parameters kwargs) =
     (let (r, self') = ListTool_execute floatstr self instance_id parameters kwargs
      in (self', g))"
| "ListTool_call floatstr (self, g) (Release instance_id kwargs) =
     (let (r, self') = ListTool_release self instance_id kwargs in (self', g))"

definition ListTool_calls ::
  "(pyfloat \<Rightarrow> string) \<Rightarrow> 's list_tool \<times> rng \<Rightarrow> unit call list \<Rightarrow> 's list_tool \<times> rng" where
  "ListTool_calls floatstr = foldl (ListTool_call floatstr)"

section \<open>Reading the catalog back: \<^verbatim>\<open>json.loads\<close>\<close>

text \<open>
  The standard library's decoder, for checking what \<^verbatim>\<open>ListTool.execute\<close> prints. It
  follows \<^verbatim>\<open>json.decoder\<close> and \<^verbatim>\<open>json.scanner\<close>: white space is skipped around values and
  delimiters, a string ends at the first unescaped double quote and must not hold control
  characters, a later duplicate of a key replaces the value of the first, and nothing but
  white space may follow the document. The result \<open>None\<close> stands for a
  \<^verbatim>\<open>JSONDecodeError\<close>, and also for two kinds of document outside the model: a number with
  a fraction or an exponent (a \<^verbatim>\<open>float\<close> obtained by rounding) and an escape
  \<^verbatim>\<open>\uXXXX\<close> of a code point above 255.
\<close>

definition is_ws :: "char \<Rightarrow> bool" where
  "is_ws c = (c = CHR '' '' \<or> c = CHR 0x09 \<or> c = CHR 0x0A \<or> c = CHR 0x0D)"

definition skip_ws :: "string \<Rightarrow> string" where
  "skip_ws s = dropWhile is_ws s"

definition strip_prefix :: "string \<Rightarrow> string \<Rightarrow> string option" where
  "strip_prefix p s = (if take (length p) s = p then Some (drop (length p) s) else None)"

definition unescape :: "char \<Rightarrow> char option" where
  "unescape c =
     (if c = CHR 0x22 \<or> c = CHR 0x5C \<or> c = CHR ''/'' then Some c
      else if c = CHR ''b'' then Some (CHR 0x08)
      else if c = CHR ''f'' then Some (CHR 0x0C)
      else if c = CHR ''n'' then Some (CHR 0x0A)
      else if c = CHR ''r'' then Some (CHR 0x0D)
      else if c = CHR ''t'' then Some (CHR 0x09)
      else None)"

definition hexval :: "char \<Rightarrow> nat option" where
  "hexval c =
     (let n = (of_char c :: nat)
      in if 48 \<le> n \<and> n \<le> 57 then Some (n - 48)
         else if 97 \<le> n \<and> n \<le> 102 then Some (n - 87)
         else if 65 \<le> n \<and> n \<le> 70 then Some (n - 55)
         else None)"

definition hex4 :: "char \<Rightarrow> char \<Rightarrow> char \<Rightarrow> char \<Rightarrow> char option" where
  "hex4 a b c d =
     (case (hexval a, hexval b, hexval c, hexval d) of
        (Some x, Some y, Some z, Some w) \<Rightarrow>
          (let n = ((x * 16 + y) * 16 + z) * 16 + w
           in if n < 256 then Some (char_of n) else None)
      | _ \<Rightarrow> None)"

fun scan_string :: "string \<Rightarrow> (string \<times> string) option" where
  \<comment> \<open>\<^verbatim>\<open>scanstring\<close>, from the character after the opening quote\<close>
  "scan_string [] = None"
| "scan_string (c # cs) =
     (if c = CHR 0x22 then Some ([], cs)
      else if c = CHR 0x5C then
        (case cs of
           [] \<Rightarrow> None
         | e # cs' \<Rightarrow>
             if e = CHR ''u'' then
               (case cs' of
                  a # b # c' # d # rest \<Rightarrow>
                    (case hex4 a b c' d of
                       None \<Rightarrow> None
                     | Some ch \<Rightarrow> map_option (\<lambda>(t, r). (ch # t, r)) (scan_string rest))
                | _ \<Rightarrow> None)
             else
               (case unescape e of
                  None \<Rightarrow> None
                | Some ch \<Rightarrow> map_option (\<lambda>(t, r). (ch # t, r)) (scan_string cs')))
      else if (of_char c :: nat) < 0x20 then None
      else map_option (\<lambda>(t, r). (c # t, r)) (scan_string cs))"

definition is_digit :: "char \<Rightarrow> bool" where
  "is_digit c = (48 \<le> (of_char c :: nat) \<and> (of_char c :: nat) \<le> 57)"

definition digits_value :: "string \<Rightarrow> nat" where
  "digits_value ds = foldl (\<lambda>a c. 10 * a + (of_char c - 48)) 0 ds"

definition scan_number :: "string \<Rightarrow> (pyval \<times> string) option" where
  \<comment> \<open>\<^verbatim>\<open>NUMBER_RE\<close>: an optional sign, then \<^verbatim>\<open>0\<close> or a digit string that does not start with \<^verbatim>\<open>0\<close>\<close>
  "scan_number s =
     (let neg = (s \<noteq> [] \<and> hd s = CHR ''-'');
          t = (if neg then tl s else s);
          ds = (if t \<noteq> [] \<and> hd t = CHR ''0'' then [hd t] else takeWhile is_digit t);
          rest = drop (length ds) t
      in if ds = [] then None
         else if rest \<noteq> [] \<and> (hd rest = CHR ''.'' \<or> hd rest = CHR ''e'' \<or> hd rest = CHR ''E'') then None
         else Some (PInt (if neg then - int (digits_value ds) else int (digits_value ds)), rest))"

definition scan_constant :: "string \<Rightarrow> (pyval \<times> string) option" where
  \<comment> \<open>the tail of \<^verbatim>\<open>_scan_once\<close>: literals, then numbers, then the three special floats\<close>
  "scan_constant s =
     (case strip_prefix ''null'' s of Some r \<Rightarrow> Some (PNone, r) | None \<Rightarrow>
      case strip_prefix ''true'' s of Some r \<Rightarrow> Some (PBool True, r) | None \<Rightarrow>
      case strip_prefix ''false'' s of Some r \<Rightarrow> Some (PBool False, r) | None \<Rightarrow>
      case scan_number s of Some x \<Rightarrow> Some x | None \<Rightarrow>
      case strip_prefix ''NaN'' s of Some r \<Rightarrow> Some (PFloat NaN, r) | None \<Rightarrow>
      case strip_prefix ''Infinity'' s of Some r \<Rightarrow> Some (PFloat PosInf, r) | None \<Rightarrow>
      case strip_prefix ''-Infinity'' s of Some r \<Rightarrow> Some (PFloat NegInf, r) | None \<Rightarrow> None)"

fun dict_setitem :: "pydict \<Rightarrow> string \<Rightarrow> pyval \<Rightarrow> pydict" where
  \<comment> \<open>\<^verbatim>\<open>d[k] = v\<close>: a key already present keeps its place\<close>
  "dict_setitem [] k v = [(k, v)]"
| "dict_setitem ((k', v') # d) k v = (if k' = k then (k, v) # d else (k', v') # dict_setitem d k v)"

definition dict_of_pairs :: "(string \<times> pyval) list \<Rightarrow> pydict" where
  "dict_of_pairs ps = foldl (\<lambda>d (k, v). dict_setitem d k v) [] ps"

text \<open>
  The three mutually recursive scanners take the nesting budget as their first argument;
  \<open>scan_array\<close> starts at an element, \<open>scan_object\<close> at the opening quote of a key.
\<close>

fun scan_once :: "nat \<Rightarrow> string \<Rightarrow> (pyval \<times> string) option"
  and scan_array :: "nat \<Rightarrow> string \<Rightarrow> (pyval list \<times> string) option"
  and scan_object :: "nat \<Rightarrow> string \<Rightarrow> ((string \<times> pyval) list \<times> string) option"
where
  "scan_once 0 s = None"
| "scan_once (Suc n) s =
     (case s of
        [] \<Rightarrow> None
      | c # cs \<Rightarrow>
          if c = CHR 0x22 then map_option (\<lambda>(t, r). (PStr t, r)) (scan_string cs)
          else if c = CHR ''{'' then
            (case skip_ws cs of
               [] \<Rightarrow> None
             | c' # cs' \<Rightarrow>
                 if c' = CHR ''}'' then Some (PDict [], cs')
                 else map_option (\<lambda>(ps, r). (PDict (dict_of_pairs ps), r)) (scan_object n (c' # cs')))
          else if c = CHR ''['' then
            (case skip_ws cs of
               [] \<Rightarrow> None
             | c' # cs' \<Rightarrow>
                 if c' = CHR '']'' then Some (PList [], cs')
                 else map_option (\<lambda>(vs, r). (PList vs, r)) (scan_array n (c' # cs')))
          else scan_constant s)"
| "scan_array 0 s = None"
| "scan_array (Suc n) s =
     (case scan_once n s of
        None \<Rightarrow> None
      | Some (v, r) \<Rightarrow>
          (case skip_ws r of
             [] \<Rightarrow> None
           | c # cs \<Rightarrow>
               if c = CHR '']'' then Some ([v], cs)
               else if c = CHR '','' then
                 map_option (\<lambda>(vs, r'). (v # vs, r')) (scan_array n (skip_ws cs))
               else None))"
| "scan_object 0 s = None"
| "scan_object (Suc n) s =
     (case s of
        [] \<Rightarrow> None
      | q # cs \<Rightarrow>
          if q \<noteq> CHR 0x22 then None
          else
            (case scan_string cs of
               None \<Rightarrow> None
             | Some (k, r) \<Rightarrow>
                 (case skip_ws r of
                    [] \<Rightarrow> None
                  | c # r1 \<Rightarrow>
                      if c \<noteq> CHR '':'' then None
                      else
                        (case scan_once n (skip_ws r1) of
                           None \<Rightarrow> None
                         | Some (v, r2) \<Rightarrow>
                             (case skip_ws r2 of
                                [] \<Rightarrow> None
                              | c2 # r3 \<Rightarrow>
                                  if c2 = CHR ''}'' then Some ([(k, v)], r3)
                                  else if c2 = CHR '','' then
                                    map_option (\<lambda>(ps, r'). ((k, v) # ps, r'))
                                      (scan_object n (skip_ws r3))
                                  else None)))))"

definition json_loads :: "string \<Rightarrow> pyval option" where
  \<comment> \<open>the budget is one more than the length of the text; every value scanned takes
      at least one character of it\<close>
  "json_loads s =
     (case scan_once (Suc (length s)) (skip_ws s) of
        None \<Rightarrow> None
      | Some (v, r) \<Rightarrow> if skip_ws r = [] then Some v else None)"

section \<open>Properties\<close>

subsection \<open>Sequencing\<close>

lemma bind_exc_simps [simp]:
  "bind_exc (Inl e) f = Inl e"
  "bind_exc (Inr v) f = f v"
  by (simp_all add: bind_exc_def)

lemma bind_exc_eq_Inr: "bind_exc x f = Inr y \<longleftrightarrow> (\<exists>v. x = Inr v \<and> f v = Inr y)"
  by (cases x) simp_all

subsection \<open>The result triple of \<^verbatim>\<open>FStarExecutionTool.execute\<close>\<close>

lemma verdict_block_score:
  assumes "verdict_block r = Inr (msg, score, meta)"
  shows "score = 0 \<and> meta = []"
  using assms by (auto simp: verdict_block_def bind_exc_eq_Inr Let_def)

lemma try_block_score:
  assumes "try_block net req = Inr (msg, score, meta)"
  shows "score = 0 \<and> meta = []"
  using assms verdict_block_score
  by (auto simp: try_block_def bind_exc_eq_Inr)

text \<open>
  Claim C4. Whenever \<^verbatim>\<open>FStarExecutionTool.execute\<close> returns a result, be it a verdict
  (true or false) or a runtime-error message, the score is 0 and the metadata is the empty
  mapping: the outcome of the verification is in the message only.
\<close>

theorem execute_score_metadata:
  assumes "fst (FStarExecutionTool_execute env net self instance_id parameters kwargs)
             = Inr (msg, score, meta)"
  shows "score = 0 \<and> meta = []"
proof (cases "dict_getitem parameters ''code''")
  case (Inl e)
  with assms show ?thesis by (simp add: FStarExecutionTool_execute_def)
next
  case code: (Inr code)
  show ?thesis
  proof (cases "bind_exc (dict_getitem kwargs ''tools_kwargs'') (\<lambda>tk. py_getitem tk ''example_name'')")
    case (Inl e)
    with assms code show ?thesis by (simp add: FStarExecutionTool_execute_def)
  next
    case pid: (Inr problem_id)
    show ?thesis
    proof (cases "try_block net (verification_request env code problem_id)")
      case (Inl e)
      with assms code pid show ?thesis
        by (simp add: FStarExecutionTool_execute_def runtime_error_def)
    next
      case (Inr res)
      with assms code pid
      have "try_block net (verification_request env code problem_id) = Inr (msg, score, meta)"
        by (simp add: FStarExecutionTool_execute_def)
      then show ?thesis by (rule try_block_score)
    qed
  qed
qed

theorem execute_score_metadata_witness:
  "fst (FStarExecutionTool_execute Map.empty
          (\<lambda>req. Response \<lparr>status = 200, status_error_str = [],
                            json = Inr (PDict [(''return_code'', PInt 1),
                                               (''messages'', PStr ''Error 19'')])\<rparr>)
          (FStarExecutionTool_init [] ()) ''i''
          [(''code'', PStr ''let x = 1'')]
          [(''tools_kwargs'', PDict [(''example_name'', PStr ''problem_42'')])])
     = Inr (''Verification Success: False'' @ [CHR 0x0A] @ ''Error 19'', 0, [])
   \<and> (0::int) = 0 \<and> ([]::pydict) = []"
proof -
  have run: "fst (FStarExecutionTool_execute Map.empty
          (\<lambda>req. Response \<lparr>status = 200, status_error_str = [],
                            json = Inr (PDict [(''return_code'', PInt 1),
                                               (''messages'', PStr ''Error 19'')])\<rparr>)
          (FStarExecutionTool_init [] ()) ''i''
          [(''code'', PStr ''let x = 1'')]
          [(''tools_kwargs'', PDict [(''example_name'', PStr ''problem_42'')])])
     = Inr (''Verification Success: False'' @ [CHR 0x0A] @ ''Error 19'', 0, [])"
    by (simp add: FStarExecutionTool_execute_def dict_getitem_def try_block_def session_post_def
        verdict_block_def raise_for_status_def py_str_bool_def)
  from execute_score_metadata [OF run] run show ?thesis by simp
qed

subsection \<open>The lifecycle methods leave the object alone\<close>

lemma FStarExecutionTool_call_state: "fst (FStarExecutionTool_call (self, g) c) = self"
  by (cases c)
     (auto simp: FStarExecutionTool_create_def FStarExecutionTool_execute_def
        FStarExecutionTool_release_def uuid4_def Let_def
        split: option.splits sum.splits prod.splits)

lemma FStarExecutionTool_calls_state: "fst (FStarExecutionTool_calls (self, g) cs) = self"
proof (induction cs arbitrary: g)
  case Nil
  show ?case by (simp add: FStarExecutionTool_calls_def)
next
  case (Cons c cs)
  obtain g' where step: "FStarExecutionTool_call (self, g) c = (self, g')"
    using FStarExecutionTool_call_state [of self g c]
    by (cases "FStarExecutionTool_call (self, g) c") simp
  from Cons.IH [of g'] step show ?case
    by (simp add: FStarExecutionTool_calls_def)
qed

lemma ListTool_call_state: "fst (ListTool_call floatstr (self, g) c) = self"
  by (cases c)
     (auto simp: ListTool_create_def ListTool_execute_def ListTool_release_def uuid4_def Let_def
        split: option.splits prod.splits)

lemma ListTool_calls_state: "fst (ListTool_calls floatstr (self, g) cs) = self"
proof (induction cs arbitrary: g)
  case Nil
  show ?case by (simp add: ListTool_calls_def)
next
  case (Cons c cs)
  obtain g' where step: "ListTool_call floatstr (self, g) c = (self, g')"
    using ListTool_call_state [of floatstr self g c]
    by (cases "ListTool_call floatstr (self, g) c") simp
  from Cons.IH [of g'] step show ?case
    by (simp add: ListTool_calls_def)
qed

text \<open>
  Claim C8. For both tools, \<^verbatim>\<open>release\<close> with any instance id and any extra arguments
  returns normally and leaves the whole object (configuration, schema, catalog, instance
  map) as it was; this holds after any history of calls, so also for an id that was never
  created or was released before.
\<close>

theorem release_is_noop:
  "FStarExecutionTool_release self instance_id kwargs = (Inr (), self)
   \<and> FStarExecutionTool_call (FStarExecutionTool_calls (self, g) cs) (Release instance_id kwargs)
       = FStarExecutionTool_calls (self, g) cs
   \<and> ListTool_release lself instance_id kwargs = (Inr (), lself)
   \<and> ListTool_call floatstr (ListTool_calls floatstr (lself, g) lcs) (Release instance_id kwargs)
       = ListTool_calls floatstr (lself, g) lcs"
proof -
  have "FStarExecutionTool_call sg (Release instance_id kwargs) = sg"
    for sg :: "'a fstar_tool \<times> rng"
    by (cases sg) (simp add: FStarExecutionTool_release_def)
  moreover have "ListTool_call floatstr lsg (Release instance_id kwargs) = lsg"
    for lsg :: "'b list_tool \<times> rng"
    by (cases lsg) (simp add: ListTool_release_def)
  ultimately show ?thesis
    by (simp add: FStarExecutionTool_release_def ListTool_release_def)
qed

text \<open>
  Claim C9. For both tools the instance map is empty after construction and empty after
  every sequence of \<^verbatim>\<open>create\<close>, \<^verbatim>\<open>execute\<close> and \<^verbatim>\<open>release\<close> calls (so \<^verbatim>\<open>create\<close>
  inserts neither a generated nor a supplied id), and \<^verbatim>\<open>execute\<close> does not read it: its
  outcome and the requests it sends are the same whatever the map holds.
\<close>

theorem instance_dict_stays_empty:
  "instance_dict (FStarExecutionTool_init cfg sch) = Map.empty
   \<and> instance_dict (fst (FStarExecutionTool_calls (FStarExecutionTool_init cfg sch, g) cs))
       = Map.empty
   \<and> instance_dict (ListTool_init lcfg lsch) = Map.empty
   \<and> instance_dict (fst (ListTool_calls floatstr (ListTool_init lcfg lsch, lg) lcs)) = Map.empty
   \<and> fst (FStarExecutionTool_execute env net (self\<lparr>instance_dict := d\<rparr>)
            instance_id parameters kwargs)
       = fst (FStarExecutionTool_execute env net self instance_id parameters kwargs)
   \<and> snd (snd (FStarExecutionTool_execute env net (self\<lparr>instance_dict := d\<rparr>)
                 instance_id parameters kwargs))
       = snd (snd (FStarExecutionTool_execute env net self instance_id parameters kwargs))
   \<and> fst (ListTool_execute floatstr (lself\<lparr>instance_dict := d\<rparr>) instance_id parameters kwargs)
       = fst (ListTool_execute floatstr lself instance_id parameters kwargs)"
proof -
  have "fst (FStarExecutionTool_execute env net (self\<lparr>instance_dict := d\<rparr>)
               instance_id parameters kwargs)
       = fst (FStarExecutionTool_execute env net self instance_id parameters kwargs)"
    by (simp add: FStarExecutionTool_execute_def Let_def split: sum.splits)
  moreover have "snd (snd (FStarExecutionTool_execute env net (self\<lparr>instance_dict := d\<rparr>)
                             instance_id parameters kwargs))
       = snd (snd (FStarExecutionTool_execute env net self instance_id parameters kwargs))"
    by (simp add: FStarExecutionTool_execute_def Let_def split: sum.splits)
  ultimately show ?thesis
    by (simp add: FStarExecutionTool_calls_state ListTool_calls_state)
       (simp add: FStarExecutionTool_init_def ListTool_init_def ListTool_execute_def)
qed

text \<open>
  Claim C10. For both tools the result of \<^verbatim>\<open>execute\<close> does not depend on the instance
  id: two calls with the same parameters, the same extra arguments and the same remote
  side return the same triple, whatever the two ids are and whatever calls (creating or
  releasing either id, or neither) came before each of them.
\<close>

theorem execute_ignores_instance_id:
  "FStarExecutionTool_execute env net self i1 parameters kwargs
     = FStarExecutionTool_execute env net self i2 parameters kwargs
   \<and> fst (FStarExecutionTool_execute env net
            (fst (FStarExecutionTool_calls (FStarExecutionTool_init cfg sch, g1) cs1))
            i1 parameters kwargs)
     = fst (FStarExecutionTool_execute env net
            (fst (FStarExecutionTool_calls (FStarExecutionTool_init cfg sch, g2) cs2))
            i2 parameters kwargs)
   \<and> ListTool_execute floatstr lself i1 parameters kwargs
     = ListTool_execute floatstr lself i2 parameters kwargs
   \<and> fst (ListTool_execute floatstr
            (fst (ListTool_calls floatstr (ListTool_init lcfg lsch, g1) lcs1))
            i1 parameters kwargs)
     = fst (ListTool_execute floatstr
            (fst (ListTool_calls floatstr (ListTool_init lcfg lsch, g2) lcs2))
            i2 parameters kwargs)"
  by (simp add: FStarExecutionTool_calls_state ListTool_calls_state)
     (simp add: FStarExecutionTool_execute_def ListTool_execute_def)

subsection \<open>What \<^verbatim>\<open>create\<close> returns\<close>

lemma FStarExecutionTool_create_returns_id:
  "fst (FStarExecutionTool_create self g (Some i) ground_truth kwargs) = Inr (Some i)"
  "FStarExecutionTool_create self g None ground_truth kwargs
     = (Inr (Some (g 0)), self, \<lambda>n. g (Suc n))"
  by (simp_all add: FStarExecutionTool_create_def uuid4_def)

text \<open>
  Claim C3. \<^verbatim>\<open>create\<close> is claimed to return the supplied instance id, or a fresh one
  when none is supplied, for both tools. \<^verbatim>\<open>FStarExecutionTool.create\<close> does;
  \<^verbatim>\<open>ListTool.create\<close> has no \<^verbatim>\<open>return\<close> statement and returns \<^verbatim>\<open>None\<close> for every
  argument, for instance for the explicit id \<^verbatim>\<open>abc\<close>.
\<close>

theorem ListTool_create_returns_None:
  "fst (ListTool_create self g instance_id ground_truth kwargs) = Inr None
   \<and> fst (ListTool_create (ListTool_init [] ()) g (Some ''abc'') None []) = Inr None"
  by (simp add: ListTool_create_def uuid4_def split: option.splits)

subsection \<open>The request and the error path of \<^verbatim>\<open>FStarExecutionTool.execute\<close>\<close>

lemma execute_with_keys:
  assumes "map_of parameters ''code'' = Some code"
    and "map_of kwargs ''tools_kwargs'' = Some (PDict tools_kwargs)"
    and "map_of tools_kwargs ''example_name'' = Some problem_id"
  shows "FStarExecutionTool_execute env net self instance_id parameters kwargs =
           (case try_block net (verification_request env code problem_id) of
              Inl e \<Rightarrow> Inr (runtime_error e)
            | Inr res \<Rightarrow> Inr res,
            self, [verification_request env code problem_id])"
  using assms by (simp add: FStarExecutionTool_execute_def dict_getitem_def Let_def)

text \<open>
  Claim C7. When \<^verbatim>\<open>parameters\<close> holds \<^verbatim>\<open>code\<close> and the extra arguments hold
  \<^verbatim>\<open>tools_kwargs\<close> with an \<^verbatim>\<open>example_name\<close>, \<^verbatim>\<open>execute\<close> sends exactly one request:
  a POST to the value of \<^verbatim>\<open>FSTAR_VERIFIER_SERVER_HOST\<close> (\<^verbatim>\<open>http://localhost:8005\<close> when
  unset) followed by \<^verbatim>\<open>/check_problem_solution\<close>, with the JSON body
  \<^verbatim>\<open>{"solution": code, "problem_id": example_name}\<close> and a total timeout of 15 seconds.
\<close>

theorem execute_request:
  assumes "map_of parameters ''code'' = Some code"
    and "map_of kwargs ''tools_kwargs'' = Some (PDict tools_kwargs)"
    and "map_of tools_kwargs ''example_name'' = Some problem_id"
  shows "snd (snd (FStarExecutionTool_execute env net self instance_id parameters kwargs)) =
           [\<lparr>req_method = ''POST'',
             req_url = (case env ''FSTAR_VERIFIER_SERVER_HOST'' of
                          None \<Rightarrow> ''http://localhost:8005''
                        | Some host \<Rightarrow> host) @ ''/check_problem_solution'',
             req_json = PDict [(''solution'', code), (''problem_id'', problem_id)],
             req_timeout_total = 15\<rparr>]"
  using assms
  by (simp add: execute_with_keys verification_request_def environ_get_def)

theorem execute_request_witness:
  "map_of [(''code'', PStr ''let x = 1'')] ''code'' = Some (PStr ''let x = 1'')
   \<and> map_of [(''tools_kwargs'', PDict [(''example_name'', PStr ''problem_42'')])] ''tools_kwargs''
       = Some (PDict [(''example_name'', PStr ''problem_42'')])
   \<and> map_of [(''example_name'', PStr ''problem_42'')] ''example_name'' = Some (PStr ''problem_42'')
   \<and> snd (snd (FStarExecutionTool_execute [''FSTAR_VERIFIER_SERVER_HOST'' \<mapsto> ''http://verifier:9000'']
                 (\<lambda>req. NoResponse (PyExc ''asyncio.exceptions.TimeoutError'' []))
                 (FStarExecutionTool_init [] ()) ''i''
                 [(''code'', PStr ''let x = 1'')]
                 [(''tools_kwargs'', PDict [(''example_name'', PStr ''problem_42'')])])) =
         [\<lparr>req_method = ''POST'',
           req_url = ''http://verifier:9000/check_problem_solution'',
           req_json = PDict [(''solution'', PStr ''let x = 1''), (''problem_id'', PStr ''problem_42'')],
           req_timeout_total = 15\<rparr>]"
proof -
  have c: "map_of [(''code'', PStr ''let x = 1'')] ''code'' = Some (PStr ''let x = 1'')"
    by simp
  have t: "map_of [(''tools_kwargs'', PDict [(''example_name'', PStr ''problem_42'')])] ''tools_kwargs''
       = Some (PDict [(''example_name'', PStr ''problem_42'')])"
    by simp
  have n: "map_of [(''example_name'', PStr ''problem_42'')] ''example_name'' = Some (PStr ''problem_42'')"
    by simp
  from execute_request [OF c t n, of "[''FSTAR_VERIFIER_SERVER_HOST'' \<mapsto> ''http://verifier:9000'']"
      "\<lambda>req. NoResponse (PyExc ''asyncio.exceptions.TimeoutError'' [])"
      "FStarExecutionTool_init [] ()" "''i''"]
  show ?thesis using c t n by simp
qed

text \<open>
  Claim C1 says that \<^verbatim>\<open>execute\<close> raises for no \<^verbatim>\<open>parameters\<close> and no extra arguments.
  The lookups \<^verbatim>\<open>parameters["code"]\<close> and \<^verbatim>\<open>kwargs["tools_kwargs"]["example_name"]\<close>
  stand before the \<^verbatim>\<open>try\<close> statement, so with an empty \<^verbatim>\<open>parameters\<close> the
  \<^verbatim>\<open>KeyError\<close> leaves the call.
\<close>

theorem execute_raises_without_code:
  "fst (FStarExecutionTool_execute Map.empty
          (\<lambda>req. Response \<lparr>status = 200, status_error_str = [],
                            json = Inr (PDict [(''return_code'', PInt 0)])\<rparr>)
          (FStarExecutionTool_init [] ()) ''i''
          []
          [(''tools_kwargs'', PDict [(''example_name'', PStr ''problem_42'')])])
     = Inl (PyExc ''KeyError'' ([CHR 0x27] @ ''code'' @ [CHR 0x27]))"
  by (simp add: FStarExecutionTool_execute_def dict_getitem_def KeyError_def sq_def)

text \<open>
  Claim C1, amended. When \<^verbatim>\<open>parameters\<close> holds \<^verbatim>\<open>code\<close> and the extra arguments hold
  \<^verbatim>\<open>tools_kwargs\<close> with an \<^verbatim>\<open>example_name\<close>, \<^verbatim>\<open>execute\<close> returns a result for every
  instance id and every behaviour of the remote side: an exception raised anywhere in the
  request and response path becomes the message
  \<^verbatim>\<open>Runtime error occurred.\<close>, a line break, the class, a colon and the detail, with
  score 0 and empty metadata.
\<close>

theorem execute_absorbs_exceptions:
  assumes "map_of parameters ''code'' = Some code"
    and "map_of kwargs ''tools_kwargs'' = Some (PDict tools_kwargs)"
    and "map_of tools_kwargs ''example_name'' = Some problem_id"
  shows "fst (FStarExecutionTool_execute env net self instance_id parameters kwargs) =
           Inr (case try_block net (verification_request env code problem_id) of
                  Inl e \<Rightarrow>
                    (''Runtime error occurred.'' @ [CHR 0x0A]
                       @ ''<class '' @ [CHR 0x27] @ exc_class e @ [CHR 0x27] @ ''>: '' @ exc_str e,
                     0, [])
                | Inr res \<Rightarrow> res)"
  using assms
  by (simp add: execute_with_keys runtime_error_def sq_def split: sum.splits)

theorem execute_absorbs_exceptions_witness:
  "map_of [(''code'', PStr ''let x = 1'')] ''code'' = Some (PStr ''let x = 1'')
   \<and> map_of [(''tools_kwargs'', PDict [(''example_name'', PStr ''problem_42'')])] ''tools_kwargs''
       = Some (PDict [(''example_name'', PStr ''problem_42'')])
   \<and> map_of [(''example_name'', PStr ''problem_42'')] ''example_name'' = Some (PStr ''problem_42'')
   \<and> fst (FStarExecutionTool_execute Map.empty
            (\<lambda>req. NoResponse (PyExc ''asyncio.exceptions.TimeoutError'' []))
            (FStarExecutionTool_init [] ()) ''i''
            [(''code'', PStr ''let x = 1'')]
            [(''tools_kwargs'', PDict [(''example_name'', PStr ''problem_42'')])]) =
         Inr (''Runtime error occurred.'' @ [CHR 0x0A]
                @ ''<class '' @ [CHR 0x27] @ ''asyncio.exceptions.TimeoutError'' @ [CHR 0x27] @ ''>: '',
              0, [])"
proof -
  have c: "map_of [(''code'', PStr ''let x = 1'')] ''code'' = Some (PStr ''let x = 1'')"
    by simp
  have t: "map_of [(''tools_kwargs'', PDict [(''example_name'', PStr ''problem_42'')])] ''tools_kwargs''
       = Some (PDict [(''example_name'', PStr ''problem_42'')])"
    by simp
  have n: "map_of [(''example_name'', PStr ''problem_42'')] ''example_name'' = Some (PStr ''problem_42'')"
    by simp
  from execute_absorbs_exceptions [OF c t n, of Map.empty
      "\<lambda>req. NoResponse (PyExc ''asyncio.exceptions.TimeoutError'' [])"
      "FStarExecutionTool_init [] ()" "''i''"]
  show ?thesis using c t n by (simp add: try_block_def session_post_def)
qed

subsection \<open>The verdict path of \<^verbatim>\<open>FStarExecutionTool.execute\<close>\<close>

text \<open>
  Claim C2 says that every 2xx response whose body parses as JSON gives the verdict
  message. The verdict line is built with \<^verbatim>\<open>resp_json.get\<close> and joined to
  \<^verbatim>\<open>messages\<close> with \<^verbatim>\<open>+\<close>: a body that parses to something other than an object
  (here the empty array) has no \<^verbatim>\<open>get\<close>, and a \<^verbatim>\<open>messages\<close> field that is not a
  string (here \<^verbatim>\<open>null\<close>) cannot be joined; both raise inside the \<^verbatim>\<open>try\<close> and give
  the runtime-error message instead.
\<close>

theorem execute_verdict_needs_object_and_text:
  "fst (FStarExecutionTool_execute Map.empty
          (\<lambda>req. Response \<lparr>status = 200, status_error_str = [], json = Inr (PList [])\<rparr>)
          (FStarExecutionTool_init [] ()) ''i''
          [(''code'', PStr ''let x = 1'')]
          [(''tools_kwargs'', PDict [(''example_name'', PStr ''problem_42'')])])
     = Inr (''Runtime error occurred.'' @ [CHR 0x0A]
              @ ''<class '' @ [CHR 0x27] @ ''AttributeError'' @ [CHR 0x27] @ ''>: ''
              @ [CHR 0x27] @ ''list'' @ [CHR 0x27] @ '' object has no attribute ''
              @ [CHR 0x27] @ ''get'' @ [CHR 0x27],
            0, [])
   \<and> fst (FStarExecutionTool_execute Map.empty
          (\<lambda>req. Response \<lparr>status = 200, status_error_str = [],
                            json = Inr (PDict [(''return_code'', PInt 0),
                                               (''score'', PFloat (Finite 1)),
                                               (''messages'', PNone)])\<rparr>)
          (FStarExecutionTool_init [] ()) ''i''
          [(''code'', PStr ''let x = 1'')]
          [(''tools_kwargs'', PDict [(''example_name'', PStr ''problem_42'')])])
     = Inr (''Runtime error occurred.'' @ [CHR 0x0A]
              @ ''<class '' @ [CHR 0x27] @ ''TypeError'' @ [CHR 0x27] @ ''>: ''
              @ ''can only concatenate str (not '' @ [CHR 0x22] @ ''NoneType'' @ [CHR 0x22]
              @ '') to str'',
            0, [])"
  by (simp add: FStarExecutionTool_execute_def dict_getitem_def Let_def try_block_def
      session_post_def verdict_block_def raise_for_status_def runtime_error_def
      AttributeError_def TypeError_def sq_def dq_def py_str_bool_def)

text \<open>
  Claim C2, amended. For every 2xx response whose body parses as a JSON object in which
  \<^verbatim>\<open>messages\<close>, when present, is a string, \<^verbatim>\<open>execute\<close> returns
  \<^verbatim>\<open>Verification Success: \<close> followed by the verdict, a line break and the messages
  (the empty string when absent), with score 0 and empty metadata. The verdict is
  \<^verbatim>\<open>True\<close> exactly when \<^verbatim>\<open>return_code\<close> (\<^verbatim>\<open>-2\<close> when absent) equals 0 and
  \<^verbatim>\<open>score\<close> (\<^verbatim>\<open>None\<close> when absent, which equals no number) equals 1.0. The mocked
  reply of the specification gives \<^verbatim>\<open>("Verification Success: True\nOK", 0, {})\<close>.
\<close>

theorem execute_verdict_message:
  assumes "map_of parameters ''code'' = Some code"
    and "map_of kwargs ''tools_kwargs'' = Some (PDict tools_kwargs)"
    and "map_of tools_kwargs ''example_name'' = Some problem_id"
    and "net (verification_request env code problem_id) = Response r"
    and "200 \<le> status r" and "status r < 300"
    and "json r = Inr (PDict body)"
    and "(case map_of body ''messages'' of None \<Rightarrow> PStr [] | Some v \<Rightarrow> v) = PStr messages"
  shows "fst (FStarExecutionTool_execute env net self instance_id parameters kwargs) =
           Inr (''Verification Success: ''
                  @ (if py_eq_num (case map_of body ''return_code'' of
                                     None \<Rightarrow> PInt (- 2) | Some v \<Rightarrow> v) 0
                        \<and> py_eq_num (case map_of body ''score'' of
                                       None \<Rightarrow> PNone | Some v \<Rightarrow> v) 1
                     then ''True'' else ''False'')
                  @ [CHR 0x0A] @ messages,
                0, [])"
proof -
  have "verdict_block r =
          Inr (''Verification Success: ''
                  @ (if py_eq_num (case map_of body ''return_code'' of
                                     None \<Rightarrow> PInt (- 2) | Some v \<Rightarrow> v) 0
                        \<and> py_eq_num (case map_of body ''score'' of
                                       None \<Rightarrow> PNone | Some v \<Rightarrow> v) 1
                     then ''True'' else ''False'')
                  @ [CHR 0x0A] @ messages,
                0, [])"
    using assms(5-8)
    by (simp add: verdict_block_def raise_for_status_def py_str_bool_def Let_def)
  with assms(4) have "try_block net (verification_request env code problem_id) =
          Inr (''Verification Success: ''
                  @ (if py_eq_num (case map_of body ''return_code'' of
                                     None \<Rightarrow> PInt (- 2) | Some v \<Rightarrow> v) 0
                        \<and> py_eq_num (case map_of body ''score'' of
                                       None \<Rightarrow> PNone | Some v \<Rightarrow> v) 1
                     then ''True'' else ''False'')
                  @ [CHR 0x0A] @ messages,
                0, [])"
    by (simp add: try_block_def session_post_def)
  with assms(1-3) show ?thesis
    by (simp add: execute_with_keys)
qed

theorem execute_verdict_message_witness:
  "fst (FStarExecutionTool_execute Map.empty
          (\<lambda>req. Response \<lparr>status = 200, status_error_str = [],
                            json = Inr (PDict [(''return_code'', PInt 0),
                                               (''score'', PFloat (Finite 1)),
                                               (''messages'', PStr ''OK'')])\<rparr>)
          (FStarExecutionTool_init [] ()) ''i''
          [(''code'', PStr ''let x = 1'')]
          [(''tools_kwargs'', PDict [(''example_name'', PStr ''problem_42'')])])
     = Inr (''Verification Success: True'' @ [CHR 0x0A] @ ''OK'', 0, [])"
proof -
  let ?r = "\<lparr>status = 200, status_error_str = [],
             json = Inr (PDict [(''return_code'', PInt 0), (''score'', PFloat (Finite 1)),
                                (''messages'', PStr ''OK'')])\<rparr>"
  have c: "map_of [(''code'', PStr ''let x = 1'')] ''code'' = Some (PStr ''let x = 1'')"
    by simp
  have t: "map_of [(''tools_kwargs'', PDict [(''example_name'', PStr ''problem_42'')])] ''tools_kwargs''
       = Some (PDict [(''example_name'', PStr ''problem_42'')])"
    by simp
  have n: "map_of [(''example_name'', PStr ''problem_42'')] ''example_name'' = Some (PStr ''problem_42'')"
    by simp
  have reply: "(\<lambda>req. Response ?r) (verification_request Map.empty (PStr ''let x = 1'') (PStr ''problem_42''))
                 = Response ?r"
    by simp
  have lo: "200 \<le> status ?r" and hi: "status ?r < 300" by simp_all
  have body: "json ?r = Inr (PDict [(''return_code'', PInt 0), (''score'', PFloat (Finite 1)),
                                    (''messages'', PStr ''OK'')])"
    by simp
  have msgs: "(case map_of [(''return_code'', PInt 0), (''score'', PFloat (Finite 1)),
                            (''messages'', PStr ''OK'')] ''messages'' of
                 None \<Rightarrow> PStr [] | Some v \<Rightarrow> v) = PStr ''OK''"
    by simp
  from execute_verdict_message [OF c t n reply lo hi body msgs,
      where self = "FStarExecutionTool_init [] ()" and instance_id = "''i''"]
  show ?thesis by simp
qed

text \<open>
  Claim C5 says that every status outside 2xx goes to the error path. The status is
  checked by \<^verbatim>\<open>response.raise_for_status()\<close>, which raises from 400 on; a response with
  status 300 and a JSON body is read like a 200 and gives a verdict line.
\<close>

theorem execute_verdict_on_status_300:
  "fst (FStarExecutionTool_execute Map.empty
          (\<lambda>req. Response \<lparr>status = 300, status_error_str = [],
                            json = Inr (PDict [(''return_code'', PInt 0),
                                               (''score'', PFloat (Finite 1)),
                                               (''messages'', PStr ''OK'')])\<rparr>)
          (FStarExecutionTool_init [] ()) ''i''
          [(''code'', PStr ''let x = 1'')]
          [(''tools_kwargs'', PDict [(''example_name'', PStr ''problem_42'')])])
     = Inr (''Verification Success: True'' @ [CHR 0x0A] @ ''OK'', 0, [])"
  by (simp add: FStarExecutionTool_execute_def dict_getitem_def Let_def try_block_def
      session_post_def verdict_block_def raise_for_status_def py_str_bool_def)

text \<open>
  Claim C5, amended. Whenever the remote service replies with a status of 400 or above,
  \<^verbatim>\<open>execute\<close> takes the same handler as for transport exceptions: the message is
  \<^verbatim>\<open>Runtime error occurred.\<close>, a line break, the class \<^verbatim>\<open>ClientResponseError\<close> and its
  text, with no verdict line; the score is 0 and the metadata empty.
\<close>

theorem execute_error_status:
  assumes "map_of parameters ''code'' = Some code"
    and "map_of kwargs ''tools_kwargs'' = Some (PDict tools_kwargs)"
    and "map_of tools_kwargs ''example_name'' = Some problem_id"
    and "net (verification_request env code problem_id) = Response r"
    and "400 \<le> status r"
  shows "fst (FStarExecutionTool_execute env net self instance_id parameters kwargs) =
           Inr (''Runtime error occurred.'' @ [CHR 0x0A]
                  @ ''<class '' @ [CHR 0x27] @ ''aiohttp.client_exceptions.ClientResponseError''
                  @ [CHR 0x27] @ ''>: '' @ status_error_str r,
                0, [])"
proof -
  from assms(5) have "verdict_block r =
      Inl (PyExc ''aiohttp.client_exceptions.ClientResponseError'' (status_error_str r))"
    by (simp add: verdict_block_def raise_for_status_def)
  with assms(4) have "try_block net (verification_request env code problem_id) =
      Inl (PyExc ''aiohttp.client_exceptions.ClientResponseError'' (status_error_str r))"
    by (simp add: try_block_def session_post_def)
  with assms(1-3) show ?thesis
    by (simp add: execute_with_keys runtime_error_def sq_def)
qed

theorem execute_error_status_witness:
  "fst (FStarExecutionTool_execute Map.empty
          (\<lambda>req. Response \<lparr>status = 500, status_error_str = ''500, message=...'',
                            json = Inr (PDict [(''return_code'', PInt 0),
                                               (''score'', PFloat (Finite 1)),
                                               (''messages'', PStr ''OK'')])\<rparr>)
          (FStarExecutionTool_init [] ()) ''i''
          [(''code'', PStr ''let x = 1'')]
          [(''tools_kwargs'', PDict [(''example_name'', PStr ''problem_42'')])])
     = Inr (''Runtime error occurred.'' @ [CHR 0x0A]
              @ ''<class '' @ [CHR 0x27] @ ''aiohttp.client_exceptions.ClientResponseError''
              @ [CHR 0x27] @ ''>: 500, message=...'',
            0, [])"
proof -
  let ?r = "\<lparr>status = 500, status_error_str = ''500, message=...'',
             json = Inr (PDict [(''return_code'', PInt 0), (''score'', PFloat (Finite 1)),
                                (''messages'', PStr ''OK'')])\<rparr>"
  have c: "map_of [(''code'', PStr ''let x = 1'')] ''code'' = Some (PStr ''let x = 1'')"
    by simp
  have t: "map_of [(''tools_kwargs'', PDict [(''example_name'', PStr ''problem_42'')])] ''tools_kwargs''
       = Some (PDict [(''example_name'', PStr ''problem_42'')])"
    by simp
  have n: "map_of [(''example_name'', PStr ''problem_42'')] ''example_name'' = Some (PStr ''problem_42'')"
    by simp
  have reply: "(\<lambda>req. Response ?r) (verification_request Map.empty (PStr ''let x = 1'') (PStr ''problem_42''))
                 = Response ?r"
    by simp
  have st: "400 \<le> status ?r" by simp
  from execute_error_status [OF c t n reply st,
      where self = "FStarExecutionTool_init [] ()" and instance_id = "''i''"]
  show ?thesis by simp
qed

subsection \<open>The catalog that \<^verbatim>\<open>ListTool.execute\<close> prints\<close>

text \<open>
  Claim C6. For every instance id, every \<^verbatim>\<open>parameters\<close> and every extra argument, and
  after any history of calls, \<^verbatim>\<open>ListTool.execute\<close> returns the same text, score 0 and
  empty metadata. The text is the catalog printed with an indent of two spaces, and reading
  it back gives the static catalog: one entry named \<^verbatim>\<open>tools/execute_fstar\<close>, whose
  required parameters are \<^verbatim>\<open>["code"]\<close> and whose parameter schema has the one string
  parameter \<^verbatim>\<open>code\<close>.
\<close>

theorem ListTool_execute_catalog:
  \<open>(case fst (ListTool_execute floatstr
               (fst (ListTool_calls floatstr (ListTool_init cfg sch, g) cs))
               instance_id parameters kwargs) of
      Inl e \<Rightarrow> False
    | Inr (text, score, meta) \<Rightarrow>
        text = concat (map (\<lambda>line. line @ [CHR 0x0A]) [
                 ''['',
                 ''  {'',
                 ''    "name": "tools/execute_fstar",'',
                 ''    "description": "A tool that executes the given fstar code.",'',
                 ''    "parameters": {'',
                 ''      "code": {'',
                 ''        "type": "string",'',
                 ''        "description": "F* code to execute"'',
                 ''      }'',
                 ''    },'',
                 ''    "required": ['',
                 ''      "code"'',
                 ''    ]'',
                 ''  }'']) @ '']''
        \<and> score = 0 \<and> meta = []
        \<and> json_loads text =
            Some (PList [
              PDict [
                (''name'', PStr ''tools/execute_fstar''),
                (''description'', PStr ''A tool that executes the given fstar code.''),
                (''parameters'', PDict [
                  (''code'', PDict [
                    (''type'', PStr ''string''),
                    (''description'', PStr ''F* code to execute'')])]),
                (''required'', PList [PStr ''code''])]]))\<close>
proof -
  let ?text = \<open>concat (map (\<lambda>line. line @ [CHR 0x0A]) [
                 ''['',
                 ''  {'',
                 ''    "name": "tools/execute_fstar",'',
                 ''    "description": "A tool that executes the given fstar code.",'',
                 ''    "parameters": {'',
                 ''      "code": {'',
                 ''        "type": "string",'',
                 ''        "description": "F* code to execute"'',
                 ''      }'',
                 ''    },'',
                 ''    "required": ['',
                 ''      "code"'',
                 ''    ]'',
                 ''  }'']) @ '']''\<close>
  have dumps: "json_dumps floatstr 2 0 tool_catalog = ?text"
    by (simp add: tool_catalog_def newline_indent_def encode_basestring_ascii_def dq_def
        escape_char_def eval_nat_numeral)
  have loads: "json_loads ?text = Some tool_catalog"
    by code_simp
  have run: "fst (ListTool_execute floatstr
               (fst (ListTool_calls floatstr (ListTool_init cfg sch, g) cs))
               instance_id parameters kwargs) = Inr (?text, 0, [])"
    by (simp only: ListTool_calls_state ListTool_execute_def ListTool_init_def fst_conv
        list_tool.simps dumps)
  show ?thesis
    by (simp only: run sum.case prod.case loads) (simp add: tool_catalog_def)
qed


end
